theory Spec2Isabelle
  imports Complex_Main "HOL-Library.AList" "HOL-Library.Char_ord" "HOL-Library.List_Lexorder"
begin

section \<open>Python values, exceptions and rounding\<close>

text \<open>
  Exceptions are values. \<open>LibError\<close> is an exception raised inside geopandas, shapely or
  pyproj (its text is the library's); the others are the interpreter's own. Where the
  source puts \<open>str(e)\<close> into a result, the model keeps the exception \<open>e\<close> itself.
\<close>

datatype exn =
    LibError string
  | IndexError
  | KeyError string
  | TypeError
  | ValueError
  | AttributeError

text \<open>
  The values a cell, a dictionary entry or a parameter can hold. Python floats are
  idealised as rationals: the model has no rounding error, no infinity and no NaN.
\<close>

datatype pyval =
    VStr string
  | VNum rat
  | VList "pyval list"
  | VNone

type_synonym dict = "(string \<times> pyval) list"

text \<open>\<open>d[k] = v\<close> on an insertion-ordered dictionary.\<close>

definition dict_set :: "dict \<Rightarrow> string \<Rightarrow> pyval \<Rightarrow> dict" where
  "dict_set d k v = AList.update k v d"

text \<open>
  \<open>round(x, n)\<close>: to the nearest multiple of \<open>10 ^ -n\<close>, a tie going to the even
  neighbour.
\<close>

definition round_half_even :: "rat \<Rightarrow> int" where
  "round_half_even x =
     (let f = \<lfloor>x\<rfloor>; d = x - of_int f
      in if d < 1 / 2 then f
         else if 1 / 2 < d then f + 1
         else if even f then f else f + 1)"

definition py_round :: "rat \<Rightarrow> nat \<Rightarrow> rat" where
  "py_round x n = of_int (round_half_even (x * 10 ^ n)) / 10 ^ n"

section \<open>Data frames\<close>

text \<open>
  A column read from a parquet file has one type: text or numbers, with \<open>None\<close> for a
  missing cell. A \<open>pylist\<close> is the list such a column becomes once the missing cells
  are dropped.
\<close>

datatype column = StrCol "string option list" | NumCol "rat option list"

datatype pylist = StrList "string list" | NumList "rat list"

datatype crs = EPSG nat

record 'g frame =
  attrs :: "(string \<times> column) list"
  geometry :: "'g list"
  frame_crs :: crs

definition columns :: "'g frame \<Rightarrow> string list" where
  "columns f = map fst (attrs f) @ [''geometry'']"

text \<open>\<open>len(gdf)\<close>: the number of rows.\<close>

definition frame_len :: "'g frame \<Rightarrow> nat" where
  "frame_len f = length (geometry f)"

text \<open>
  \<open>gdf[col]\<close> for an attribute column. Every column name the source looks up is a
  literal other than \<open>geometry\<close>, so for those names \<open>col in gdf.columns\<close> is
  \<open>frame_col f col \<noteq> None\<close>.
\<close>

definition frame_col :: "'g frame \<Rightarrow> string \<Rightarrow> column option" where
  "frame_col f col = map_of (attrs f) col"

fun dropna :: "'a option list \<Rightarrow> 'a list" where
  "dropna [] = []"
| "dropna (None # xs) = dropna xs"
| "dropna (Some x # xs) = x # dropna xs"

text \<open>\<open>unique()\<close> keeps the first occurrence of each value, in order of appearance.\<close>

fun unique :: "'a list \<Rightarrow> 'a list" where
  "unique [] = []"
| "unique (x # xs) = x # unique (filter (\<lambda>y. y \<noteq> x) xs)"

definition col_dropna :: "column \<Rightarrow> pylist" where
  "col_dropna c = (case c of StrCol xs \<Rightarrow> StrList (dropna xs) | NumCol xs \<Rightarrow> NumList (dropna xs))"

definition pl_unique :: "pylist \<Rightarrow> pylist" where
  "pl_unique l = (case l of StrList xs \<Rightarrow> StrList (unique xs) | NumList xs \<Rightarrow> NumList (unique xs))"

text \<open>\<open>sorted(l)\<close>: text by code point, lexicographically; numbers by value.\<close>

definition pl_sorted :: "pylist \<Rightarrow> pylist" where
  "pl_sorted l = (case l of StrList xs \<Rightarrow> StrList (sort xs) | NumList xs \<Rightarrow> NumList (sort xs))"

definition tolist :: "pylist \<Rightarrow> pyval list" where
  "tolist l = (case l of StrList xs \<Rightarrow> map VStr xs | NumList xs \<Rightarrow> map VNum xs)"

section \<open>The geometry library\<close>

text \<open>
  shapely and pyproj are not part of the repository: the operations the source calls are
  parameters. \<open>unary_union\<close> and the coordinate transformation can raise; area and
  length of a geometry cannot.
\<close>

record 'g geo_lib =
  unary_union :: "'g list \<Rightarrow> exn + 'g"
  transform :: "crs \<Rightarrow> crs \<Rightarrow> 'g \<Rightarrow> exn + 'g"
  geom_area :: "'g \<Rightarrow> rat"
  geom_length :: "'g \<Rightarrow> rat"

fun map_exn :: "('a \<Rightarrow> exn + 'b) \<Rightarrow> 'a list \<Rightarrow> exn + 'b list" where
  "map_exn h [] = Inr []"
| "map_exn h (x # xs) =
     (case h x of
        Inl e \<Rightarrow> Inl e
      | Inr y \<Rightarrow> (case map_exn h xs of Inl e \<Rightarrow> Inl e | Inr ys \<Rightarrow> Inr (y # ys)))"

text \<open>\<open>gdf.to_crs(target)\<close>: every geometry transformed, the attributes kept.\<close>

definition to_crs :: "'g geo_lib \<Rightarrow> 'g frame \<Rightarrow> crs \<Rightarrow> exn + 'g frame" where
  "to_crs L f target =
     (case map_exn (transform L (frame_crs f) target) (geometry f) of
        Inl e \<Rightarrow> Inl e
      | Inr gs \<Rightarrow> Inr (f\<lparr>geometry := gs, frame_crs := target\<rparr>))"

section \<open>TerrainAnalyzer\<close>

text \<open>
  The instance: its frame and its cached unified geometry. \<open>union_calls\<close> is not an
  attribute of the class: it counts the calls of \<open>unary_union\<close> made through the
  instance, so that a theorem can say whether a union was computed again.
\<close>

record 'g analyzer =
  gdf :: "'g frame"
  unified_geometry :: "'g option"
  union_calls :: nat

definition TerrainAnalyzer :: "'g frame \<Rightarrow> 'g analyzer" where
  "TerrainAnalyzer f = \<lparr>gdf = f, unified_geometry = None, union_calls = 0\<rparr>"

definition call_unary_union ::
  "'g geo_lib \<Rightarrow> 'g list \<Rightarrow> 'g analyzer \<Rightarrow> (exn + 'g) \<times> 'g analyzer" where
  "call_unary_union L gs a = (unary_union L gs, a\<lparr>union_calls := union_calls a + 1\<rparr>)"

text \<open>
  \<open>unify_lots\<close>: the exception handler logs and raises again, so a failure of the union
  leaves the cache as it was.
\<close>

definition unify_lots :: "'g geo_lib \<Rightarrow> 'g analyzer \<Rightarrow> (exn + 'g) \<times> 'g analyzer" where
  "unify_lots L a =
     (let geometries = geometry (gdf a)
      in if length geometries = 1
         then (Inr (geometries ! 0), a\<lparr>unified_geometry := Some (geometries ! 0)\<rparr>)
         else (case call_unary_union L geometries a of
                 (Inl e, a') \<Rightarrow> (Inl e, a')
               | (Inr u, a') \<Rightarrow> (Inr u, a'\<lparr>unified_geometry := Some u\<rparr>)))"

definition ensure_unified :: "'g geo_lib \<Rightarrow> 'g analyzer \<Rightarrow> (exn + unit) \<times> 'g analyzer" where
  \<comment> \<open>\<open>if self.unified_geometry is None: self.unify_lots()\<close>\<close>
  "ensure_unified L a =
     (if unified_geometry a = None
      then (case unify_lots L a of (Inl e, a') \<Rightarrow> (Inl e, a') | (Inr u, a') \<Rightarrow> (Inr (), a'))
      else (Inr (), a))"

definition metric_crs :: crs where
  "metric_crs = EPSG 31984"

text \<open>
  The part of the \<open>try\<close> block that area and perimeter share: reproject the frame to the
  metric CRS, then measure the only geometry, or the union of all of them; \<open>m\<close> is
  \<open>.area\<close> or \<open>.length\<close>.
\<close>

definition measure_metric ::
  "'g geo_lib \<Rightarrow> ('g \<Rightarrow> rat) \<Rightarrow> 'g analyzer \<Rightarrow> (exn + rat) \<times> 'g analyzer" where
  "measure_metric L m a =
     (case to_crs L (gdf a) metric_crs of
        Inl e \<Rightarrow> (Inl e, a)
      | Inr gdf_metric \<Rightarrow>
          if frame_len gdf_metric = 1 then (Inr (m (geometry gdf_metric ! 0)), a)
          else (case call_unary_union L (geometry gdf_metric) a of
                  (Inl e, a') \<Rightarrow> (Inl e, a')
                | (Inr unified_metric, a') \<Rightarrow> (Inr (m unified_metric), a')))"

definition measure_try ::
  "'g geo_lib \<Rightarrow> ('g \<Rightarrow> rat) \<Rightarrow> 'g analyzer \<Rightarrow> (exn + rat) \<times> 'g analyzer" where
  "measure_try L m a =
     (case ensure_unified L a of
        (Inl e, a1) \<Rightarrow> (Inl e, a1)
      | (Inr u, a1) \<Rightarrow>
          (case measure_metric L m a1 of
             (Inl e, a2) \<Rightarrow> (Inl e, a2)
           | (Inr x, a2) \<Rightarrow> (Inr (py_round x 2), a2)))"

text \<open>
  The \<open>except\<close> block: the measure of the cached geometry, in degrees, times a power of
  111320. Reading \<open>.area\<close> of \<open>None\<close> would raise AttributeError.
\<close>

definition measure_fallback ::
  "'g geo_lib \<Rightarrow> ('g \<Rightarrow> rat) \<Rightarrow> rat \<Rightarrow> 'g analyzer \<Rightarrow> (exn + rat) \<times> 'g analyzer" where
  "measure_fallback L m factor a =
     (case ensure_unified L a of
        (Inl e, a1) \<Rightarrow> (Inl e, a1)
      | (Inr u, a1) \<Rightarrow>
          (case unified_geometry a1 of
             None \<Rightarrow> (Inl AttributeError, a1)
           | Some g \<Rightarrow> (Inr (py_round (m g * factor) 2), a1)))"

definition calculate_area :: "'g geo_lib \<Rightarrow> 'g analyzer \<Rightarrow> (exn + rat) \<times> 'g analyzer" where
  "calculate_area L a =
     (case measure_try L (geom_area L) a of
        (Inr area, a1) \<Rightarrow> (Inr area, a1)
      | (Inl e, a1) \<Rightarrow> measure_fallback L (geom_area L) (111320 ^ 2) a1)"

definition calculate_perimeter :: "'g geo_lib \<Rightarrow> 'g analyzer \<Rightarrow> (exn + rat) \<times> 'g analyzer" where
  "calculate_perimeter L a =
     (case measure_try L (geom_length L) a of
        (Inr perimeter, a1) \<Rightarrow> (Inr perimeter, a1)
      | (Inl e, a1) \<Rightarrow> measure_fallback L (geom_length L) 111320 a1)"

subsection \<open>Attribute extraction\<close>

definition zoning_columns :: "string list" where
  "zoning_columns =
     [''zona'', ''zoneamento'', ''zone'', ''ZONA'', ''ZONEAMENTO'',
      ''uso'', ''uso_solo'', ''tipo_zona'', ''categoria'']"

definition param_columns :: "string list" where
  "param_columns =
     [''coeficiente'', ''ca'', ''coef_aproveitamento'', ''taxa_ocupacao'',
      ''to'', ''gabarito'', ''altura_max'', ''recuo'', ''testada_min'']"

definition info_columns :: "string list" where
  "info_columns =
     [''matricula'', ''inscricao'', ''proprietario'', ''endereco'',
      ''logradouro'', ''numero'', ''quadra'', ''lote'']"

text \<open>
  What each of the three loops stores for a column that exists, if anything: the zoning
  loop takes the distinct values, the parameter loop takes all the values, and both store
  a lone value bare; the loop of \<open>calculate_info\<close> always stores the list of distinct
  values.
\<close>

definition zoning_entry :: "column \<Rightarrow> pyval option" where
  "zoning_entry c =
     (let values = tolist (pl_unique (col_dropna c))
      in if values \<noteq> [] then Some (if length values = 1 then values ! 0 else VList values)
         else None)"

definition param_entry :: "column \<Rightarrow> pyval option" where
  "param_entry c =
     (let values = tolist (col_dropna c)
      in if values \<noteq> [] then Some (if length values = 1 then values ! 0 else VList values)
         else None)"

definition info_entry :: "column \<Rightarrow> pyval option" where
  "info_entry c =
     (let values = tolist (pl_unique (col_dropna c))
      in if values \<noteq> [] then Some (VList values) else None)"

fun extract_loop :: "(column \<Rightarrow> pyval option) \<Rightarrow> 'g frame \<Rightarrow> string list \<Rightarrow> dict \<Rightarrow> dict" where
  "extract_loop entry f [] d = d"
| "extract_loop entry f (col # cols) d =
     (case frame_col f col of
        None \<Rightarrow> extract_loop entry f cols d
      | Some c \<Rightarrow>
          (case entry c of
             None \<Rightarrow> extract_loop entry f cols d
           | Some v \<Rightarrow> extract_loop entry f cols (dict_set d col v)))"

definition status_msg :: string where
  "status_msg = ''Informa'' @ [CHR 0xE7, CHR 0xF5] @ ''es de zoneamento n'' @ [CHR 0xE3]
     @ ''o dispon'' @ [CHR 0xED] @ ''veis nos dados''"

text \<open>
  \<open>extract_zoning_info\<close>. On typed columns nothing in the \<open>try\<close> block raises, so the
  handler that would return an \<open>error\<close> entry has no branch here.
\<close>

definition extract_zoning_info :: "'g frame \<Rightarrow> dict" where
  "extract_zoning_info f =
     (let zoning_info = extract_loop zoning_entry f zoning_columns [];
          zoning_info = extract_loop param_entry f param_columns zoning_info
      in if zoning_info = [] then dict_set zoning_info ''status'' (VStr status_msg)
         else zoning_info)"

subsection \<open>The summary\<close>

datatype additional = Additional dict | NaoDisponivel

record info =
  total_lotes :: nat
  area_total_m2 :: rat
  area_total_hectares :: rat
  perimetro_m :: rat
  zoneamento :: dict
  informacoes_adicionais :: additional

text \<open>
  The two dictionaries \<open>calculate_info\<close> can return: the full record, or \<open>error\<close> with
  \<open>total_lotes\<close>.
\<close>

datatype info_result = Info info | InfoError exn nat

definition calculate_info :: "'g geo_lib \<Rightarrow> 'g analyzer \<Rightarrow> info_result \<times> 'g analyzer" where
  "calculate_info L a =
     (case calculate_area L a of
        (Inl e, a1) \<Rightarrow> (InfoError e (frame_len (gdf a1)), a1)
      | (Inr area, a1) \<Rightarrow>
          (case calculate_perimeter L a1 of
             (Inl e, a2) \<Rightarrow> (InfoError e (frame_len (gdf a2)), a2)
           | (Inr perimeter, a2) \<Rightarrow>
               (let zoning = extract_zoning_info (gdf a2);
                    additional_info = extract_loop info_entry (gdf a2) info_columns []
                in (Info \<lparr>total_lotes = frame_len (gdf a2),
                           area_total_m2 = area,
                           area_total_hectares = py_round (area / 10000) 4,
                           perimetro_m = perimeter,
                           zoneamento = zoning,
                           informacoes_adicionais =
                             (if additional_info \<noteq> [] then Additional additional_info
                              else NaoDisponivel)\<rparr>, a2))))"

section \<open>ZoningCalculator\<close>

record zoning_calculator =
  area_terreno :: rat
  params :: "string \<rightharpoonup> pyval"

definition dict_get :: "(string \<rightharpoonup> pyval) \<Rightarrow> string \<Rightarrow> pyval \<Rightarrow> pyval" where
  \<comment> \<open>\<open>d.get(k, default)\<close>\<close>
  "dict_get d k dflt = (case d k of Some v \<Rightarrow> v | None \<Rightarrow> dflt)"

text \<open>\<open>if isinstance(v, (list, tuple)): v = v[0]\<close>; a tuple is a \<open>VList\<close> here.\<close>

definition first_if_list :: "pyval \<Rightarrow> exn + pyval" where
  "first_if_list v =
     (case v of VList [] \<Rightarrow> Inl IndexError | VList (x # xs) \<Rightarrow> Inr x | _ \<Rightarrow> Inr v)"

text \<open>
  \<open>float(v)\<close>. How the interpreter reads a text as a number is the parameter
  \<open>str_to_float\<close>; a text it does not read raises ValueError, a list or \<open>None\<close>
  raises TypeError.
\<close>

definition py_float :: "(string \<Rightarrow> rat option) \<Rightarrow> pyval \<Rightarrow> exn + rat" where
  "py_float str_to_float v =
     (case v of
        VNum r \<Rightarrow> Inr r
      | VStr s \<Rightarrow> (case str_to_float s of Some r \<Rightarrow> Inr r | None \<Rightarrow> Inl ValueError)
      | VList xs \<Rightarrow> Inl TypeError
      | VNone \<Rightarrow> Inl TypeError)"

text \<open>
  The \<open>try\<close> block shared by the two calculations: \<open>key\<close> is the canonical name,
  \<open>abbrev\<close> the abbreviation, \<open>dflt\<close> the default when neither is a key.
\<close>

definition scaled_area ::
  "(string \<Rightarrow> rat option) \<Rightarrow> zoning_calculator \<Rightarrow> string \<Rightarrow> string \<Rightarrow> rat \<Rightarrow> exn + rat" where
  "scaled_area str_to_float z key abbrev dflt =
     (let v = dict_get (params z) key (dict_get (params z) abbrev (VNum dflt))
      in case first_if_list v of
           Inl e \<Rightarrow> Inl e
         | Inr v \<Rightarrow>
             (case py_float str_to_float v of
                Inl e \<Rightarrow> Inl e
              | Inr x \<Rightarrow> Inr (py_round (area_terreno z * x) 2)))"

text \<open>The handlers log a warning and return \<open>None\<close>.\<close>

definition calculate_buildable_area ::
  "(string \<Rightarrow> rat option) \<Rightarrow> zoning_calculator \<Rightarrow> rat option" where
  "calculate_buildable_area str_to_float z =
     (case scaled_area str_to_float z ''coeficiente'' ''ca'' 1 of
        Inl e \<Rightarrow> None
      | Inr buildable \<Rightarrow> Some buildable)"

definition calculate_footprint ::
  "(string \<Rightarrow> rat option) \<Rightarrow> zoning_calculator \<Rightarrow> rat option" where
  "calculate_footprint str_to_float z =
     (case scaled_area str_to_float z ''taxa_ocupacao'' ''to'' (1 / 2) of
        Inl e \<Rightarrow> None
      | Inr footprint \<Rightarrow> Some footprint)"

section \<open>The store and the request handlers\<close>

text \<open>
  What \<open>load_geojson\<close> finds at the configured path: no file, a file that pandas or
  shapely fails to read, or a table of attribute columns and decoded geometries.
\<close>

datatype 'g source = Missing | Unreadable exn | Table "(string \<times> column) list" "'g list"

definition source_crs :: crs where
  "source_crs = EPSG 31984"

definition display_crs :: crs where
  "display_crs = EPSG 4326"

text \<open>
  \<open>load_geojson\<close> returns the frame reprojected to the display CRS, or \<open>None\<close>. The
  result is what the global \<open>GEOJSON_DATA\<close> holds.
\<close>

definition load_geojson :: "'g geo_lib \<Rightarrow> 'g source \<Rightarrow> 'g frame option" where
  "load_geojson L src =
     (case src of
        Missing \<Rightarrow> None
      | Unreadable e \<Rightarrow> None
      | Table cols geo \<Rightarrow>
          (case to_crs L \<lparr>attrs = cols, geometry = geo, frame_crs = source_crs\<rparr> display_crs of
             Inl e \<Rightarrow> None
           | Inr loaded \<Rightarrow> Some loaded))"

text \<open>
  \<open>iloc\<close> with a list of positions: a position from \<open>-n\<close> to \<open>n - 1\<close> selects a row,
  counting from the end when negative; any other raises IndexError. Every column of a
  frame has as many cells as the frame has rows.
\<close>

definition iloc_pos :: "nat \<Rightarrow> int \<Rightarrow> exn + nat" where
  "iloc_pos n i =
     (if 0 \<le> i \<and> i < int n then Inr (nat i)
      else if - int n \<le> i \<and> i < 0 then Inr (nat (int n + i))
      else Inl IndexError)"

definition take_rows :: "nat list \<Rightarrow> 'a list \<Rightarrow> 'a list" where
  "take_rows js xs = map (\<lambda>j. xs ! j) js"

definition col_rows :: "nat list \<Rightarrow> column \<Rightarrow> column" where
  "col_rows js c =
     (case c of StrCol xs \<Rightarrow> StrCol (take_rows js xs) | NumCol xs \<Rightarrow> NumCol (take_rows js xs))"

definition iloc :: "'g frame \<Rightarrow> int list \<Rightarrow> exn + 'g frame" where
  "iloc f indices =
     (case map_exn (iloc_pos (frame_len f)) indices of
        Inl e \<Rightarrow> Inl e
      | Inr js \<Rightarrow>
          Inr (f\<lparr>attrs := map (\<lambda>(k, c). (k, col_rows js c)) (attrs f),
                geometry := take_rows js (geometry f)\<rparr>))"

text \<open>
  The JSON bodies of the responses, one constructor for each shape the handlers build,
  paired with the HTTP status.
\<close>

datatype 'g body =
    Failure string
  | FailureExn exn
  | ColumnNotFound string "string list"
  | Bairros "pyval list" nat
  | Unidos nat 'g info
  | LoteInfo info_result

type_synonym 'g response = "'g body \<times> nat"

definition msg_not_loaded :: string where
  "msg_not_loaded = ''Dados GeoJSON n'' @ [CHR 0xE3] @ ''o carregados''"

definition msg_not_loaded_bairros :: string where
  "msg_not_loaded_bairros =
     msg_not_loaded @ ''. Adicione terrenos.geojson na raiz do projeto.''"

definition msg_no_bairro_column :: string where
  "msg_no_bairro_column = ''Coluna de bairro n'' @ [CHR 0xE3] @ ''o encontrada no GeoJSON''"

definition msg_none_selected :: string where
  "msg_none_selected = ''Nenhum lote selecionado''"

definition msg_invalid_index :: string where
  "msg_invalid_index = [CHR 0xCD] @ ''ndice de lote inv'' @ [CHR 0xE1] @ ''lido''"

text \<open>The loop with \<open>break\<close>: the first candidate that is a column of the frame.\<close>

fun resolve_column :: "string list \<Rightarrow> string list \<Rightarrow> string option" where
  "resolve_column [] cols = None"
| "resolve_column (col # rest) cols =
     (if col \<in> set cols then Some col else resolve_column rest cols)"

definition bairro_candidates :: "string list" where
  "bairro_candidates =
     [''bairro'', ''BAIRRO'', ''Bairro'', ''nome'', ''NOME'', ''Nome'', ''neighborhood'']"

text \<open>
  A handler takes the global store and returns its response with the store, so that a
  theorem can say the store is left as it was. \<open>sorted\<close> is applied to the typed list:
  \<open>tolist\<close> only changes the representation.
\<close>

definition get_bairros :: "'g frame option \<Rightarrow> 'g response \<times> 'g frame option" where
  "get_bairros store =
     (case store of
        None \<Rightarrow> ((Failure msg_not_loaded_bairros, 500), store)
      | Some data \<Rightarrow>
          (case resolve_column bairro_candidates (columns data) of
             None \<Rightarrow> ((ColumnNotFound msg_no_bairro_column (columns data), 400), store)
           | Some bairro_col \<Rightarrow>
               (case frame_col data bairro_col of
                  None \<Rightarrow> ((FailureExn (KeyError bairro_col), 500), store)
                | Some c \<Rightarrow>
                    (let bairros = tolist (pl_sorted (pl_unique (col_dropna c)))
                     in ((Bairros bairros (length bairros), 200), store)))))"

text \<open>
  The body of a POST to \<open>/api/unir-lotes\<close>: reading it as a JSON object fails with an
  exception, or it is an object whose key \<open>indices\<close>, when present, holds a list of
  integers.
\<close>

datatype request = NotJson exn | JsonBody "int list option"

text \<open>
  \<open>unir_lotes\<close>. The log line after \<open>calculate_info\<close> reads \<open>info['area_total_m2']\<close>,
  which raises KeyError when \<open>calculate_info\<close> returned its error dictionary.
\<close>

definition unir_lotes ::
  "'g geo_lib \<Rightarrow> 'g frame option \<Rightarrow> request \<Rightarrow> 'g response \<times> 'g frame option" where
  "unir_lotes L store req =
     (case store of
        None \<Rightarrow> ((Failure msg_not_loaded, 500), store)
      | Some data \<Rightarrow>
          (case req of
             NotJson e \<Rightarrow> ((FailureExn e, 500), store)
           | JsonBody given \<Rightarrow>
               (let indices = (case given of None \<Rightarrow> [] | Some xs \<Rightarrow> xs)
                in if indices = [] \<or> length indices = 0
                   then ((Failure msg_none_selected, 400), store)
                   else (case iloc data indices of
                           Inl e \<Rightarrow> ((FailureExn e, 500), store)
                         | Inr selected_lots \<Rightarrow>
                             (case unify_lots L (TerrainAnalyzer selected_lots) of
                                (Inl e, a1) \<Rightarrow> ((FailureExn e, 500), store)
                              | (Inr unified_geom, a1) \<Rightarrow>
                                  (case calculate_info L a1 of
                                     (InfoError e n, a2) \<Rightarrow>
                                       ((FailureExn (KeyError ''area_total_m2''), 500), store)
                                   | (Info info, a2) \<Rightarrow>
                                       ((Unidos (length indices) unified_geom info, 200),
                                        store)))))))"

definition get_lote_info ::
  "'g geo_lib \<Rightarrow> 'g frame option \<Rightarrow> int \<Rightarrow> 'g response \<times> 'g frame option" where
  "get_lote_info L store index =
     (case store of
        None \<Rightarrow> ((Failure msg_not_loaded, 500), store)
      | Some data \<Rightarrow>
          if index < 0 \<or> int (frame_len data) \<le> index
          then ((Failure msg_invalid_index, 400), store)
          else (case iloc data [index] of
                  Inl e \<Rightarrow> ((FailureExn e, 500), store)
                | Inr lote \<Rightarrow>
                    (case calculate_info L (TerrainAnalyzer lote) of
                       (info, a1) \<Rightarrow> ((LoteInfo info, 200), store))))"

section \<open>Sample data\<close>

text \<open>
  Concrete inputs for the examples. \<open>grid_lib\<close> stands for the geometry library: a
  geometry is a list of numbered unit cells without repetition, the union keeps each
  cell of its arguments once, the area is the number of cells, the length four times
  that, and reprojection changes nothing. Its two variants fail where the real library
  can: one cannot reproject, the other cannot compute a union.
\<close>

definition grid_lib :: "int list geo_lib" where
  "grid_lib =
     \<lparr>unary_union = (\<lambda>gs. Inr (remdups (concat gs))),
      transform = (\<lambda>src dst g. Inr g),
      geom_area = (\<lambda>g. of_nat (length g)),
      geom_length = (\<lambda>g. 4 * of_nat (length g))\<rparr>"

definition grid_lib_no_reprojection :: "int list geo_lib" where
  "grid_lib_no_reprojection =
     grid_lib\<lparr>transform := (\<lambda>src dst g. Inl (LibError ''CRSError''))\<rparr>"

definition grid_lib_no_union :: "int list geo_lib" where
  "grid_lib_no_union =
     grid_lib\<lparr>unary_union := (\<lambda>gs. Inl (LibError ''TopologyException''))\<rparr>"

definition lotes :: "int list frame" where
  "lotes =
     \<lparr>attrs =
        [(''nome'', StrCol [Some ''Lote 3'', Some ''Lote 1'', None]),
         (''BAIRRO'', StrCol [Some ''Centro'', Some ''Barro Vermelho'', Some ''Centro'']),
         (''zona'', StrCol [Some ''ZR1'', Some ''ZC'', Some ''ZR1'']),
         (''uso'', StrCol [Some ''misto'', None, Some ''misto'']),
         (''categoria'', StrCol [None, None, None]),
         (''ca'', NumCol [Some 2, Some 3, Some 2]),
         (''to'', NumCol [None, Some (1 / 2), None]),
         (''quadra'', NumCol [Some 7, Some 7, Some 8])],
      geometry = [[0, 1], [1, 2], [5]],
      frame_crs = display_crs\<rparr>"

text \<open>Three parcels with no attribute, and a frame with one attribute column.\<close>

definition quadra :: "int list frame" where
  "quadra = \<lparr>attrs = [], geometry = [[0, 1], [1, 2], [5]], frame_crs = display_crs\<rparr>"

definition one_column :: "string \<Rightarrow> column \<Rightarrow> int list list \<Rightarrow> int list frame" where
  "one_column name c geo = \<lparr>attrs = [(name, c)], geometry = geo, frame_crs = display_crs\<rparr>"

text \<open>A text reader that reads only \<open>2.5\<close>.\<close>

definition reads_2_5 :: "string \<Rightarrow> rat option" where
  "reads_2_5 s = (if s = ''2.5'' then Some (5 / 2) else None)"

section \<open>Unifying the selected parcels\<close>

lemma unify_lots_gdf: "gdf (snd (unify_lots L a)) = gdf a"
  by (simp add: unify_lots_def call_unary_union_def Let_def split: sum.splits)

text \<open>
  C1. A selection of exactly one parcel is returned as it is, and cached; for two or more
  parcels the result is the library's union of all the selected geometries, so that,
  whenever the library's union is the set-theoretic one (the points of the result are
  the points of the arguments, \<open>pts\<close> giving the points of a geometry), the result
  covers exactly the points of the selected parcels.
\<close>

theorem unify_lots_result:
  assumes "\<And>gs u. unary_union L gs = Inr u \<Longrightarrow> pts u = (\<Union>g\<in>set gs. pts g)"
  shows "(length (geometry (gdf a)) = 1 \<longrightarrow>
            unify_lots L a =
              (Inr (geometry (gdf a) ! 0), a\<lparr>unified_geometry := Some (geometry (gdf a) ! 0)\<rparr>))
       \<and> (2 \<le> length (geometry (gdf a)) \<longrightarrow>
            fst (unify_lots L a) = unary_union L (geometry (gdf a))
          \<and> (\<forall>u. fst (unify_lots L a) = Inr u \<longrightarrow>
                pts u = (\<Union>g\<in>set (geometry (gdf a)). pts g)))"
  using assms
  by (auto simp: unify_lots_def call_unary_union_def Let_def split: sum.splits)

text \<open>
  One parcel of two cells comes back unchanged; three parcels, two of which share a cell,
  come back as the four cells they cover.
\<close>

theorem unify_lots_result_witness:
  "fst (unify_lots grid_lib (TerrainAnalyzer (one_column ''zona'' (StrCol [Some ''ZR1'']) [[0, 1]])))
     = Inr [0, 1]
 \<and> fst (unify_lots grid_lib (TerrainAnalyzer quadra)) = Inr [0, 1, 2, 5]
 \<and> set [0, 1, 2, 5] = set [0, 1] \<union> set [1, 2] \<union> set [5 :: int]"
proof -
  have c: "\<And>gs u. unary_union grid_lib gs = Inr u \<Longrightarrow> set u = (\<Union>g\<in>set gs. set g)"
    by (auto simp: grid_lib_def)
  have one: "geometry (gdf (TerrainAnalyzer (one_column ''zona'' (StrCol [Some ''ZR1'']) [[0, 1]])))
      = [[0, 1]]"
    by (simp add: TerrainAnalyzer_def one_column_def)
  have many: "geometry (gdf (TerrainAnalyzer quadra)) = [[0, 1], [1, 2], [5]]"
    by (simp add: TerrainAnalyzer_def quadra_def)
  have u: "unary_union grid_lib [[0, 1], [1, 2], [5]] = Inr [0, 1, 2, 5]"
    by (simp add: grid_lib_def)
  have "fst (unify_lots grid_lib (TerrainAnalyzer (one_column ''zona'' (StrCol [Some ''ZR1'']) [[0, 1]])))
     = Inr [0, 1]"
    using unify_lots_result [of grid_lib set
        "TerrainAnalyzer (one_column ''zona'' (StrCol [Some ''ZR1'']) [[0, 1]])", OF c]
    by (simp add: one)
  moreover have "fst (unify_lots grid_lib (TerrainAnalyzer quadra)) = Inr [0, 1, 2, 5]"
    using unify_lots_result [of grid_lib set "TerrainAnalyzer quadra", OF c]
    by (simp add: many u)
  moreover have "set [0, 1, 2, 5] = set [0, 1] \<union> set [1, 2] \<union> set [5 :: int]"
    by auto
  ultimately show ?thesis by blast
qed

text \<open>
  C7, as the code has it. \<open>unify_lots\<close> does not look at the cache: a second call
  computes the union again (for any selection but a single parcel), returns a geometry
  equal to the first call's and stores it again. Only the callers that need the unified
  geometry (area, perimeter, centroid, bounds) test the cache and skip the call.
\<close>

theorem unify_lots_again:
  assumes "unify_lots L a = (Inr u, a1)"
  shows "fst (unify_lots L a1) = Inr u
       \<and> unified_geometry (snd (unify_lots L a1)) = Some u
       \<and> gdf (snd (unify_lots L a1)) = gdf a
       \<and> union_calls (snd (unify_lots L a1)) =
           union_calls a1 + (if length (geometry (gdf a)) = 1 then 0 else 1)
       \<and> ensure_unified L a1 = (Inr (), a1)"
  using assms
  by (auto simp: unify_lots_def ensure_unified_def call_unary_union_def Let_def
      split: sum.splits if_splits)

theorem unify_lots_again_witness:
  "fst (unify_lots grid_lib (TerrainAnalyzer quadra)) = Inr [0, 1, 2, 5]
 \<and> fst (unify_lots grid_lib (snd (unify_lots grid_lib (TerrainAnalyzer quadra)))) = Inr [0, 1, 2, 5]
 \<and> union_calls (snd (unify_lots grid_lib (snd (unify_lots grid_lib (TerrainAnalyzer quadra))))) =
     union_calls (snd (unify_lots grid_lib (TerrainAnalyzer quadra))) + 1"
proof -
  have r: "fst (unify_lots grid_lib (TerrainAnalyzer quadra)) = Inr [0, 1, 2, 5]"
    by (simp add: unify_lots_def call_unary_union_def TerrainAnalyzer_def quadra_def grid_lib_def)
  then have h: "unify_lots grid_lib (TerrainAnalyzer quadra) =
      (Inr [0, 1, 2, 5], snd (unify_lots grid_lib (TerrainAnalyzer quadra)))"
    by (metis prod.collapse)
  have n: "length (geometry (gdf (TerrainAnalyzer quadra))) = 3"
    by (simp add: TerrainAnalyzer_def quadra_def)
  show ?thesis
    using r unify_lots_again [OF h] by (simp add: n)
qed

text \<open>
  The claim as stated fails: on three parcels the second call computes the union a second
  time.
\<close>

theorem unify_lots_recomputes_counterexample:
  "union_calls (snd (unify_lots grid_lib (TerrainAnalyzer quadra))) = 1
 \<and> union_calls (snd (unify_lots grid_lib (snd (unify_lots grid_lib (TerrainAnalyzer quadra))))) = 2"
  by (simp add: unify_lots_def call_unary_union_def TerrainAnalyzer_def quadra_def grid_lib_def)

section \<open>Area and perimeter\<close>

lemma ensure_unified_gdf: "gdf (snd (ensure_unified L a)) = gdf a"
  by (auto simp: ensure_unified_def unify_lots_def call_unary_union_def Let_def
      split: sum.splits)

lemma ensure_unified_cached:
  "ensure_unified L a = (Inr u, a1) \<Longrightarrow> \<exists>g. unified_geometry a1 = Some g"
  by (auto simp: ensure_unified_def unify_lots_def call_unary_union_def Let_def
      split: sum.splits if_splits prod.splits)

lemma ensure_unified_idem:
  "ensure_unified L a = (Inr u, a1) \<Longrightarrow> ensure_unified L a1 = (Inr (), a1)"
  by (auto simp: ensure_unified_def unify_lots_def call_unary_union_def Let_def
      split: sum.splits if_splits prod.splits)

lemma fallback_after_failed_reprojection:
  assumes "ensure_unified L a = (Inr (), a1)" and "to_crs L (gdf a) metric_crs = Inl e"
  shows "\<exists>g. unified_geometry a1 = Some g \<and>
     (case measure_try L m a of
        (Inr x, a2) \<Rightarrow> (Inr x, a2)
      | (Inl e, a2) \<Rightarrow> measure_fallback L m k a2) = (Inr (py_round (m g * k) 2), a1)"
proof -
  obtain g where g: "unified_geometry a1 = Some g"
    using ensure_unified_cached [OF assms(1)] by blast
  have "gdf a1 = gdf a"
    using ensure_unified_gdf [of L a] assms(1) by simp
  then have "measure_metric L m a1 = (Inl e, a1)"
    using assms(2) by (simp add: measure_metric_def)
  then have "measure_try L m a = (Inl e, a1)"
    using assms(1) by (simp add: measure_try_def)
  moreover have "measure_fallback L m k a1 = (Inr (py_round (m g * k) 2), a1)"
    using ensure_unified_idem [OF assms(1)] g by (simp add: measure_fallback_def)
  ultimately show ?thesis using g by simp
qed

text \<open>
  C6. Reprojection is attempted once the unified geometry is there (cached, or just
  computed). If it then fails, \<open>calculate_area\<close> returns the area of the unified
  geometry, in degrees, times 111320 squared, and \<open>calculate_perimeter\<close> its length
  times 111320, each rounded to 2 decimals and returned as a value, not raised.
\<close>

theorem reprojection_failure_fallback:
  assumes "ensure_unified L a = (Inr (), a1)" and "to_crs L (gdf a) metric_crs = Inl e"
  shows "\<exists>g. unified_geometry a1 = Some g
       \<and> calculate_area L a = (Inr (py_round (geom_area L g * 111320 ^ 2) 2), a1)
       \<and> calculate_perimeter L a = (Inr (py_round (geom_length L g * 111320) 2), a1)"
  using fallback_after_failed_reprojection [OF assms, of "geom_area L" "111320 ^ 2"]
        fallback_after_failed_reprojection [OF assms, of "geom_length L" 111320]
  by (auto simp: calculate_area_def calculate_perimeter_def)

text \<open>
  Three parcels covering four cells, with a library that cannot reproject: the area is
  4 times 111320 squared and the perimeter 16 times 111320.
\<close>

theorem reprojection_failure_fallback_witness:
  "fst (calculate_area grid_lib_no_reprojection (TerrainAnalyzer quadra)) = Inr 49568569600
 \<and> fst (calculate_perimeter grid_lib_no_reprojection (TerrainAnalyzer quadra)) = Inr 1781120"
proof -
  have "fst (ensure_unified grid_lib_no_reprojection (TerrainAnalyzer quadra)) = Inr ()"
    by (simp add: ensure_unified_def unify_lots_def call_unary_union_def TerrainAnalyzer_def
        quadra_def grid_lib_no_reprojection_def grid_lib_def)
  then have u: "ensure_unified grid_lib_no_reprojection (TerrainAnalyzer quadra) =
      (Inr (), snd (ensure_unified grid_lib_no_reprojection (TerrainAnalyzer quadra)))"
    by (metis prod.collapse)
  have g: "unified_geometry (snd (ensure_unified grid_lib_no_reprojection (TerrainAnalyzer quadra)))
      = Some [0, 1, 2, 5]"
    by (simp add: ensure_unified_def unify_lots_def call_unary_union_def TerrainAnalyzer_def
        quadra_def grid_lib_no_reprojection_def grid_lib_def)
  have t: "to_crs grid_lib_no_reprojection (gdf (TerrainAnalyzer quadra)) metric_crs =
      Inl (LibError ''CRSError'')"
    by (simp add: to_crs_def TerrainAnalyzer_def quadra_def grid_lib_no_reprojection_def
        grid_lib_def)
  have r: "py_round (4 * 111320 ^ 2) 2 = 49568569600" "py_round (4 * 4 * 111320) 2 = 1781120"
    by (simp_all add: py_round_def round_half_even_def)
  have m: "geom_area grid_lib_no_reprojection [0, 1, 2, 5] = 4"
    "geom_length grid_lib_no_reprojection [0, 1, 2, 5] = 4 * 4"
    by (simp_all add: grid_lib_no_reprojection_def grid_lib_def)
  show ?thesis
    using reprojection_failure_fallback [OF u t] g r by (auto simp: m)
qed

section \<open>The summary never raises\<close>

lemma measure_fallback_gdf: "gdf (snd (measure_fallback L m k a)) = gdf a"
  using ensure_unified_gdf [of L a]
  by (auto simp: measure_fallback_def split: prod.splits sum.splits option.splits)

lemma measure_metric_gdf: "gdf (snd (measure_metric L m a)) = gdf a"
  by (auto simp: measure_metric_def call_unary_union_def split: prod.splits sum.splits)

lemma measure_try_gdf: "gdf (snd (measure_try L m a)) = gdf a"
  using ensure_unified_gdf [of L a] measure_metric_gdf [of L m "snd (ensure_unified L a)"]
  by (auto simp: measure_try_def split: prod.splits sum.splits)

lemma calculate_area_gdf: "gdf (snd (calculate_area L a)) = gdf a"
  using measure_try_gdf [of L "geom_area L" a]
        measure_fallback_gdf [of L "geom_area L" "111320 ^ 2" "snd (measure_try L (geom_area L) a)"]
  by (auto simp: calculate_area_def split: prod.splits sum.splits)

lemma calculate_perimeter_gdf: "gdf (snd (calculate_perimeter L a)) = gdf a"
  using measure_try_gdf [of L "geom_length L" a]
        measure_fallback_gdf [of L "geom_length L" 111320 "snd (measure_try L (geom_length L) a)"]
  by (auto simp: calculate_perimeter_def split: prod.splits sum.splits)

lemma calculate_info_area_fails:
  assumes "calculate_area L a = (Inl e, a1)"
  shows "calculate_info L a = (InfoError e (frame_len (gdf a)), a1)"
  using assms calculate_area_gdf [of L a] by (simp add: calculate_info_def)

lemma calculate_info_perimeter_fails:
  assumes "calculate_area L a = (Inr area, a1)" and "calculate_perimeter L a1 = (Inl e, a2)"
  shows "calculate_info L a = (InfoError e (frame_len (gdf a)), a2)"
proof -
  have "gdf a2 = gdf a"
    using assms calculate_area_gdf [of L a] calculate_perimeter_gdf [of L a1] by simp
  then show ?thesis using assms by (simp add: calculate_info_def)
qed

lemma calculate_info_succeeds:
  assumes "calculate_area L a = (Inr area, a1)"
    and "calculate_perimeter L a1 = (Inr perimeter, a2)"
  shows "calculate_info L a =
     (Info \<lparr>total_lotes = frame_len (gdf a),
            area_total_m2 = area,
            area_total_hectares = py_round (area / 10000) 4,
            perimetro_m = perimeter,
            zoneamento = extract_zoning_info (gdf a),
            informacoes_adicionais =
              (if extract_loop info_entry (gdf a) info_columns [] \<noteq> []
               then Additional (extract_loop info_entry (gdf a) info_columns [])
               else NaoDisponivel)\<rparr>, a2)"
proof -
  have "gdf a2 = gdf a"
    using assms calculate_area_gdf [of L a] calculate_perimeter_gdf [of L a1] by simp
  then show ?thesis using assms by (simp add: calculate_info_def Let_def)
qed

text \<open>
  C3. \<open>calculate_info\<close> always returns one of its two records. When the area or the
  perimeter raises, the exception is caught and the result is the error record, holding
  the exception and the number of parcels. Otherwise the result holds the number of
  parcels, the area, the area divided by 10000 and rounded to 4 decimals, the perimeter,
  the zoning information and the additional information.
\<close>

theorem calculate_info_total:
  "(\<exists>e a'. calculate_info L a = (InfoError e (frame_len (gdf a)), a')
        \<and> (fst (calculate_area L a) = Inl e
           \<or> fst (calculate_perimeter L (snd (calculate_area L a))) = Inl e))
 \<or> (\<exists>i a'. calculate_info L a = (Info i, a')
        \<and> total_lotes i = frame_len (gdf a)
        \<and> fst (calculate_area L a) = Inr (area_total_m2 i)
        \<and> area_total_hectares i = py_round (area_total_m2 i / 10000) 4
        \<and> fst (calculate_perimeter L (snd (calculate_area L a))) = Inr (perimetro_m i)
        \<and> zoneamento i = extract_zoning_info (gdf a)
        \<and> informacoes_adicionais i =
            (if extract_loop info_entry (gdf a) info_columns [] \<noteq> []
             then Additional (extract_loop info_entry (gdf a) info_columns [])
             else NaoDisponivel))"
proof (cases "calculate_area L a")
  case (Pair r a1)
  show ?thesis
  proof (cases r)
    case (Inl e)
    then show ?thesis
      using Pair calculate_info_area_fails [of L a e a1] by auto
  next
    case (Inr area)
    show ?thesis
    proof (cases "calculate_perimeter L a1")
      case p: (Pair r2 a2)
      show ?thesis
      proof (cases r2)
        case (Inl e)
        then show ?thesis
          using Pair Inr p calculate_info_perimeter_fails [of L a area a1 e a2] by auto
      next
        case r2: (Inr perimeter)
        show ?thesis
          using Pair Inr p r2 calculate_info_succeeds [of L a area a1 perimeter a2] by auto
      qed
    qed
  qed
qed

text \<open>
  With a library that cannot compute a union, the summary of three parcels is the error
  record with the count 3; with \<open>grid_lib\<close> it is the full record.
\<close>

theorem calculate_info_total_witness:
  "fst (calculate_info grid_lib_no_union (TerrainAnalyzer quadra)) =
     InfoError (LibError ''TopologyException'') 3
 \<and> (\<exists>i. fst (calculate_info grid_lib (TerrainAnalyzer quadra)) = Info i
        \<and> total_lotes i = 3 \<and> area_total_m2 i = 4 \<and> area_total_hectares i = 1 / 2500
        \<and> perimetro_m i = 16)"
proof -
  have len: "frame_len (gdf (TerrainAnalyzer quadra)) = 3"
    by (simp add: frame_len_def TerrainAnalyzer_def quadra_def)
  have bad: "fst (calculate_area grid_lib_no_union (TerrainAnalyzer quadra)) =
      Inl (LibError ''TopologyException'')"
    "fst (calculate_perimeter grid_lib_no_union
           (snd (calculate_area grid_lib_no_union (TerrainAnalyzer quadra)))) =
      Inl (LibError ''TopologyException'')"
    by (simp_all add: calculate_area_def calculate_perimeter_def measure_try_def
        measure_fallback_def ensure_unified_def unify_lots_def call_unary_union_def
        TerrainAnalyzer_def quadra_def grid_lib_no_union_def grid_lib_def)
  have good: "fst (calculate_area grid_lib (TerrainAnalyzer quadra)) = Inr 4"
    "fst (calculate_perimeter grid_lib (snd (calculate_area grid_lib (TerrainAnalyzer quadra))))
      = Inr 16"
    by (simp_all add: calculate_area_def calculate_perimeter_def measure_try_def
        measure_metric_def to_crs_def frame_len_def ensure_unified_def unify_lots_def
        call_unary_union_def TerrainAnalyzer_def quadra_def grid_lib_def py_round_def
        round_half_even_def)
  have r: "py_round (4 / 10000) 4 = 1 / 2500"
    by (simp add: py_round_def round_half_even_def)
  have "fst (calculate_info grid_lib_no_union (TerrainAnalyzer quadra)) =
     InfoError (LibError ''TopologyException'') 3"
    using calculate_info_total [of grid_lib_no_union "TerrainAnalyzer quadra"] bad len
    by auto
  moreover have "\<exists>i. fst (calculate_info grid_lib (TerrainAnalyzer quadra)) = Info i
        \<and> total_lotes i = 3 \<and> area_total_m2 i = 4 \<and> area_total_hectares i = 1 / 2500
        \<and> perimetro_m i = 16"
    using calculate_info_total [of grid_lib "TerrainAnalyzer quadra"] good len r
    by auto
  ultimately show ?thesis by simp
qed

section \<open>Zoning information\<close>

lemma map_of_dict_set: "map_of (dict_set d k v) = (map_of d)(k \<mapsto> v)"
  by (simp add: dict_set_def update_conv')

lemma dict_set_not_Nil: "dict_set d k v \<noteq> []"
  by (cases d) (auto simp: dict_set_def)

lemma map_of_extract_loop:
  "map_of (extract_loop entry f cols d) k =
     (if k \<in> set cols
      then (case frame_col f k of
              None \<Rightarrow> map_of d k
            | Some c \<Rightarrow> (case entry c of None \<Rightarrow> map_of d k | Some v \<Rightarrow> Some v))
      else map_of d k)"
proof (induction cols arbitrary: d)
  case Nil
  then show ?case by simp
next
  case (Cons col cols)
  then show ?case
    by (auto simp: map_of_dict_set split: option.splits)
qed

lemma extract_loop_not_Nil: "d \<noteq> [] \<Longrightarrow> extract_loop entry f cols d \<noteq> []"
  by (induction cols arbitrary: d) (auto simp: dict_set_not_Nil split: option.splits)

lemma extract_loop_Nil_iff:
  "extract_loop entry f cols [] = [] \<longleftrightarrow>
     (\<forall>col\<in>set cols. \<forall>c. frame_col f col = Some c \<longrightarrow> entry c = None)"
proof (induction cols)
  case Nil
  then show ?case by simp
next
  case (Cons col cols)
  then show ?case
    by (auto simp: extract_loop_not_Nil dict_set_not_Nil split: option.splits)
qed

lemma unique_Nil_iff: "unique xs = [] \<longleftrightarrow> xs = []"
  by (cases xs) auto

lemma tolist_unique_Nil_iff: "tolist (pl_unique l) = [] \<longleftrightarrow> tolist l = []"
  by (cases l) (auto simp: tolist_def pl_unique_def unique_Nil_iff)

lemma zoning_entry_None_iff: "zoning_entry c = None \<longleftrightarrow> tolist (col_dropna c) = []"
  by (simp add: zoning_entry_def Let_def tolist_unique_Nil_iff)

lemma param_entry_None_iff: "param_entry c = None \<longleftrightarrow> tolist (col_dropna c) = []"
  by (simp add: param_entry_def Let_def)

lemma zoning_not_param: "col \<in> set zoning_columns \<Longrightarrow> col \<notin> set param_columns"
  by (auto simp: zoning_columns_def param_columns_def)

lemma status_not_column: "''status'' \<notin> set zoning_columns" "''status'' \<notin> set param_columns"
  by (auto simp: zoning_columns_def param_columns_def)

lemma map_of_extract_zoning_info:
  assumes "col \<noteq> ''status''"
  shows "map_of (extract_zoning_info f) col =
     map_of (extract_loop param_entry f param_columns
               (extract_loop zoning_entry f zoning_columns [])) col"
proof (cases "extract_loop param_entry f param_columns
               (extract_loop zoning_entry f zoning_columns []) = []")
  case True
  then show ?thesis using assms by (simp add: extract_zoning_info_def dict_set_def)
next
  case False
  then show ?thesis by (simp add: extract_zoning_info_def)
qed

lemma zoning_column_entry:
  assumes "col \<in> set zoning_columns" and "frame_col f col = Some c"
  shows "map_of (extract_zoning_info f) col = zoning_entry c"
proof -
  have "col \<noteq> ''status''" using assms(1) status_not_column by auto
  then show ?thesis
    using assms zoning_not_param [OF assms(1)]
    by (simp add: map_of_extract_zoning_info map_of_extract_loop split: option.splits)
qed

lemma param_column_entry:
  assumes "col \<in> set param_columns" and "frame_col f col = Some c"
  shows "map_of (extract_zoning_info f) col = param_entry c"
proof -
  have "col \<noteq> ''status''" using assms(1) status_not_column by auto
  moreover have "col \<notin> set zoning_columns" using assms(1) zoning_not_param by auto
  ultimately show ?thesis
    using assms
    by (simp add: map_of_extract_zoning_info map_of_extract_loop split: option.splits)
qed

lemma absent_column_entry:
  assumes "col \<in> set (zoning_columns @ param_columns)" and "frame_col f col = None"
  shows "map_of (extract_zoning_info f) col = None"
proof -
  have "col \<noteq> ''status''" using assms(1) status_not_column by auto
  then show ?thesis
    using assms by (simp add: map_of_extract_zoning_info map_of_extract_loop)
qed

lemma nothing_recorded_status:
  assumes "\<forall>col\<in>set (zoning_columns @ param_columns).
             \<forall>c. frame_col f col = Some c \<longrightarrow> tolist (col_dropna c) = []"
  shows "extract_zoning_info f = [(''status'', VStr status_msg)]"
proof -
  have "extract_loop zoning_entry f zoning_columns [] = []"
    using assms by (auto simp: extract_loop_Nil_iff zoning_entry_None_iff)
  moreover have "extract_loop param_entry f param_columns [] = []"
    using assms by (auto simp: extract_loop_Nil_iff param_entry_None_iff)
  ultimately show ?thesis
    by (simp add: extract_zoning_info_def dict_set_def)
qed

lemma frame_col_absent: "col \<notin> set (columns f) \<Longrightarrow> frame_col f col = None"
  by (auto simp: columns_def frame_col_def map_of_eq_None_iff)

text \<open>
  C2, as the code has it. Only the non-null values of the selected parcels count. A zoning
  column is recorded as its one distinct value, or as the list of its distinct values when
  there are several; a parameter column as its value when exactly one parcel has one, and
  as the list of all the values when they differ. A column that is absent, or whose
  values are all null, is not recorded. When nothing is recorded, in particular when no
  recognised column exists, the result is the single \<open>status\<close> entry.
\<close>

theorem zoning_info_entries:
  "(\<forall>col c vs. col \<in> set zoning_columns \<and> frame_col f col = Some c
        \<and> vs = tolist (pl_unique (col_dropna c)) \<longrightarrow>
      map_of (extract_zoning_info f) col =
        (if vs = [] then None else if length vs = 1 then Some (vs ! 0) else Some (VList vs)))
 \<and> (\<forall>col c vs. col \<in> set param_columns \<and> frame_col f col = Some c
        \<and> vs = tolist (col_dropna c) \<longrightarrow>
      (vs = [] \<longrightarrow> map_of (extract_zoning_info f) col = None)
    \<and> (length vs = 1 \<longrightarrow> map_of (extract_zoning_info f) col = Some (vs ! 0))
    \<and> ((\<exists>x y. x \<in> set vs \<and> y \<in> set vs \<and> x \<noteq> y) \<longrightarrow>
         map_of (extract_zoning_info f) col = Some (VList vs)))
 \<and> (\<forall>col. col \<in> set (zoning_columns @ param_columns) \<and> col \<notin> set (columns f) \<longrightarrow>
      map_of (extract_zoning_info f) col = None)
 \<and> ((\<forall>col\<in>set (zoning_columns @ param_columns).
        \<forall>c. frame_col f col = Some c \<longrightarrow> tolist (col_dropna c) = []) \<longrightarrow>
      extract_zoning_info f = [(''status'', VStr status_msg)])
 \<and> ((\<forall>col\<in>set (zoning_columns @ param_columns). col \<notin> set (columns f)) \<longrightarrow>
      extract_zoning_info f = [(''status'', VStr status_msg)])"
proof (intro conjI allI impI)
  fix col c vs
  assume "col \<in> set zoning_columns \<and> frame_col f col = Some c
        \<and> vs = tolist (pl_unique (col_dropna c))"
  then show "map_of (extract_zoning_info f) col =
        (if vs = [] then None else if length vs = 1 then Some (vs ! 0) else Some (VList vs))"
    by (simp add: zoning_column_entry zoning_entry_def Let_def)
next
  fix col c vs
  assume h: "col \<in> set param_columns \<and> frame_col f col = Some c \<and> vs = tolist (col_dropna c)"
  then have e: "map_of (extract_zoning_info f) col = param_entry c"
    by (simp add: param_column_entry)
  { assume "vs = []"
    then show "map_of (extract_zoning_info f) col = None"
      using h e by (simp add: param_entry_def) }
  { assume "length vs = 1"
    then show "map_of (extract_zoning_info f) col = Some (vs ! 0)"
      using h e by (auto simp: param_entry_def Let_def) }
  { assume "\<exists>x y. x \<in> set vs \<and> y \<in> set vs \<and> x \<noteq> y"
    then have "vs \<noteq> [] \<and> length vs \<noteq> 1"
      by (cases vs) (auto simp: length_Suc_conv)
    then show "map_of (extract_zoning_info f) col = Some (VList vs)"
      using h e by (auto simp: param_entry_def Let_def) }
next
  fix col
  assume "col \<in> set (zoning_columns @ param_columns) \<and> col \<notin> set (columns f)"
  then show "map_of (extract_zoning_info f) col = None"
    using absent_column_entry frame_col_absent by blast
next
  assume "\<forall>col\<in>set (zoning_columns @ param_columns).
        \<forall>c. frame_col f col = Some c \<longrightarrow> tolist (col_dropna c) = []"
  then show "extract_zoning_info f = [(''status'', VStr status_msg)]"
    by (rule nothing_recorded_status)
next
  assume "\<forall>col\<in>set (zoning_columns @ param_columns). col \<notin> set (columns f)"
  then have "\<forall>col\<in>set (zoning_columns @ param_columns).
        \<forall>c. frame_col f col = Some c \<longrightarrow> tolist (col_dropna c) = []"
    using frame_col_absent by fastforce
  then show "extract_zoning_info f = [(''status'', VStr status_msg)]"
    by (rule nothing_recorded_status)
qed

text \<open>
  On the three parcels of \<open>lotes\<close>: two zones, one use, a category that is always null,
  coefficients that differ, one occupation rate; on parcels with no attribute, the
  status entry.
\<close>

theorem zoning_info_entries_witness:
  "map_of (extract_zoning_info lotes) ''zona'' = Some (VList [VStr ''ZR1'', VStr ''ZC''])
 \<and> map_of (extract_zoning_info lotes) ''uso'' = Some (VStr ''misto'')
 \<and> map_of (extract_zoning_info lotes) ''categoria'' = None
 \<and> map_of (extract_zoning_info lotes) ''ca'' = Some (VList [VNum 2, VNum 3, VNum 2])
 \<and> map_of (extract_zoning_info lotes) ''to'' = Some (VNum (1 / 2))
 \<and> map_of (extract_zoning_info lotes) ''gabarito'' = None
 \<and> extract_zoning_info quadra = [(''status'', VStr status_msg)]"
proof -
  have z: "''zona'' \<in> set zoning_columns" "''uso'' \<in> set zoning_columns"
    "''categoria'' \<in> set zoning_columns"
    by (simp_all add: zoning_columns_def)
  have p: "''ca'' \<in> set param_columns" "''to'' \<in> set param_columns"
    "''gabarito'' \<in> set (zoning_columns @ param_columns)"
    by (simp_all add: param_columns_def)
  have c: "frame_col lotes ''zona'' = Some (StrCol [Some ''ZR1'', Some ''ZC'', Some ''ZR1''])"
    "frame_col lotes ''uso'' = Some (StrCol [Some ''misto'', None, Some ''misto''])"
    "frame_col lotes ''categoria'' = Some (StrCol [None, None, None])"
    "frame_col lotes ''ca'' = Some (NumCol [Some 2, Some 3, Some 2])"
    "frame_col lotes ''to'' = Some (NumCol [None, Some (1 / 2), None])"
    by (simp_all add: frame_col_def lotes_def)
  have g: "''gabarito'' \<notin> set (columns lotes)"
    by (simp add: columns_def lotes_def)
  have q: "\<forall>col\<in>set (zoning_columns @ param_columns). col \<notin> set (columns quadra)"
    by (simp add: columns_def quadra_def zoning_columns_def param_columns_def)
  note t = zoning_info_entries [of lotes]
  have "map_of (extract_zoning_info lotes) ''zona'' = Some (VList [VStr ''ZR1'', VStr ''ZC''])"
    using t z(1) c(1) by (simp add: tolist_def pl_unique_def col_dropna_def)
  moreover have "map_of (extract_zoning_info lotes) ''uso'' = Some (VStr ''misto'')"
    using t z(2) c(2) by (simp add: tolist_def pl_unique_def col_dropna_def)
  moreover have "map_of (extract_zoning_info lotes) ''categoria'' = None"
    using t z(3) c(3) by (simp add: tolist_def pl_unique_def col_dropna_def)
  moreover have "map_of (extract_zoning_info lotes) ''ca'' = Some (VList [VNum 2, VNum 3, VNum 2])"
  proof -
    have "\<exists>x y. x \<in> set [VNum 2, VNum 3, VNum 2] \<and> y \<in> set [VNum 2, VNum 3, VNum 2] \<and> x \<noteq> y"
      by (intro exI [of _ "VNum 2"] exI [of _ "VNum 3"]) simp
    moreover have "tolist (col_dropna (NumCol [Some 2, Some 3, Some 2])) = [VNum 2, VNum 3, VNum 2]"
      by (simp add: tolist_def col_dropna_def)
    ultimately show ?thesis using t p(1) c(4) by metis
  qed
  moreover have "map_of (extract_zoning_info lotes) ''to'' = Some (VNum (1 / 2))"
  proof -
    have "tolist (col_dropna (NumCol [None, Some (1 / 2), None])) = [VNum (1 / 2)]"
      by (simp add: tolist_def col_dropna_def)
    moreover have "length [VNum (1 / 2)] = 1" "[VNum (1 / 2)] ! 0 = VNum (1 / 2)"
      by simp_all
    ultimately show ?thesis using t p(2) c(5) by metis
  qed
  moreover have "map_of (extract_zoning_info lotes) ''gabarito'' = None"
    using t p(3) g by blast
  moreover have "extract_zoning_info quadra = [(''status'', VStr status_msg)]"
    using zoning_info_entries [of quadra] q by blast
  ultimately show ?thesis by blast
qed

text \<open>
  The claim as stated fails in three ways, each by an explicit step of the loop. A zoning
  column that exists but is null for the one selected parcel records nothing, and the
  result is the status entry although a recognised column exists (\<open>if values\<close>). Two
  parcels that differ, one with a zone and one without, are recorded as a single value
  (\<open>dropna\<close>). Three parcels with zones ZR1, ZC, ZR1 are recorded as the two distinct
  values, not as the full list of three (\<open>unique\<close>).
\<close>

theorem zoning_info_counterexample:
  "''zona'' \<in> set (columns (one_column ''zona'' (StrCol [None]) [[0]]))
 \<and> extract_zoning_info (one_column ''zona'' (StrCol [None]) [[0]]) =
     [(''status'', VStr status_msg)]
 \<and> extract_zoning_info (one_column ''zona'' (StrCol [Some ''ZR1'', None]) [[0], [1]]) =
     [(''zona'', VStr ''ZR1'')]
 \<and> extract_zoning_info (one_column ''zona'' (StrCol [Some ''ZR1'', Some ''ZC'', Some ''ZR1''])
       [[0], [1], [2]]) =
     [(''zona'', VList [VStr ''ZR1'', VStr ''ZC''])]"
  by (simp add: extract_zoning_info_def zoning_columns_def param_columns_def frame_col_def
      columns_def one_column_def zoning_entry_def param_entry_def tolist_def pl_unique_def
      col_dropna_def dict_set_def)

text \<open>
  The parameter loop has no \<open>unique\<close>: two parcels with the same coefficient are recorded
  as a list of two values, where the zoning loop would record the one value.
\<close>

lemma param_column_keeps_equal_values:
  "extract_zoning_info (one_column ''ca'' (NumCol [Some 2, Some 2]) [[0], [1]]) =
     [(''ca'', VList [VNum 2, VNum 2])]
 \<and> extract_zoning_info (one_column ''zona'' (StrCol [Some ''ZR1'', Some ''ZR1'']) [[0], [1]]) =
     [(''zona'', VStr ''ZR1'')]"
  by (simp add: extract_zoning_info_def zoning_columns_def param_columns_def frame_col_def
      one_column_def zoning_entry_def param_entry_def tolist_def pl_unique_def
      col_dropna_def dict_set_def)

section \<open>The zoning calculator\<close>

lemma scaled_area_defaults:
  "params z key = None \<Longrightarrow> params z abbrev = None \<Longrightarrow>
     scaled_area S z key abbrev k = Inr (py_round (area_terreno z * k) 2)"
  by (simp add: scaled_area_def dict_get_def first_if_list_def py_float_def)

lemma scaled_area_selected:
  "params z key = Some v \<or> (params z key = None \<and> params z abbrev = Some v) \<Longrightarrow>
     scaled_area S z key abbrev k =
       (case first_if_list v of
          Inl e \<Rightarrow> Inl e
        | Inr x \<Rightarrow> (case py_float S x of Inl e \<Rightarrow> Inl e | Inr r \<Rightarrow> Inr (py_round (area_terreno z * r) 2)))"
  by (auto simp: scaled_area_def dict_get_def)

lemma py_round_1000: "py_round 1000 2 = 1000"
  by (simp add: py_round_def round_half_even_def)

lemma py_round_500: "py_round 500 2 = 500"
  by (simp add: py_round_def round_half_even_def)

text \<open>
  C4. When neither \<open>coeficiente\<close> nor \<open>ca\<close> is a key of the parameters, the
  buildable area is the terrain area times 1, rounded to 2 decimals; when neither
  \<open>taxa_ocupacao\<close> nor \<open>to\<close> is, the footprint is the terrain area times 1/2. With no
  parameter at all and a terrain of 1000 they are 1000 and 500. When the value read (the
  canonical key's, else the abbreviation's) is an empty list, or its first element or
  itself is not read as a number, the result is \<open>None\<close>, not an exception.
\<close>

theorem calculator_defaults:
  "(params z ''coeficiente'' = None \<and> params z ''ca'' = None \<longrightarrow>
      calculate_buildable_area S z = Some (py_round (area_terreno z * 1) 2))
 \<and> (params z ''taxa_ocupacao'' = None \<and> params z ''to'' = None \<longrightarrow>
      calculate_footprint S z = Some (py_round (area_terreno z * (1 / 2)) 2))
 \<and> calculate_buildable_area S \<lparr>area_terreno = 1000, params = Map.empty\<rparr> = Some 1000
 \<and> calculate_footprint S \<lparr>area_terreno = 1000, params = Map.empty\<rparr> = Some 500
 \<and> (\<forall>v. (params z ''coeficiente'' = Some v
           \<or> (params z ''coeficiente'' = None \<and> params z ''ca'' = Some v))
         \<and> ((\<exists>e. first_if_list v = Inl e)
            \<or> (\<exists>x e. first_if_list v = Inr x \<and> py_float S x = Inl e)) \<longrightarrow>
      calculate_buildable_area S z = None)
 \<and> (\<forall>v. (params z ''taxa_ocupacao'' = Some v
           \<or> (params z ''taxa_ocupacao'' = None \<and> params z ''to'' = Some v))
         \<and> ((\<exists>e. first_if_list v = Inl e)
            \<or> (\<exists>x e. first_if_list v = Inr x \<and> py_float S x = Inl e)) \<longrightarrow>
      calculate_footprint S z = None)"
proof (intro conjI allI impI)
  show "calculate_buildable_area S \<lparr>area_terreno = 1000, params = Map.empty\<rparr> = Some 1000"
    by (simp add: calculate_buildable_area_def scaled_area_defaults py_round_1000)
  show "calculate_footprint S \<lparr>area_terreno = 1000, params = Map.empty\<rparr> = Some 500"
    by (simp add: calculate_footprint_def scaled_area_defaults py_round_500)
qed (auto simp: calculate_buildable_area_def calculate_footprint_def scaled_area_defaults
       scaled_area_selected)

text \<open>
  Parameters without any of the four keys give the defaults; a text that is not a number
  under \<open>ca\<close>, or an empty list under \<open>taxa_ocupacao\<close>, gives \<open>None\<close>.
\<close>

theorem calculator_defaults_witness:
  "calculate_buildable_area reads_2_5 \<lparr>area_terreno = 360, params = [''gabarito'' \<mapsto> VNum 4]\<rparr> = Some 360
 \<and> calculate_footprint reads_2_5 \<lparr>area_terreno = 360, params = [''gabarito'' \<mapsto> VNum 4]\<rparr> = Some 180
 \<and> calculate_buildable_area reads_2_5 \<lparr>area_terreno = 360, params = [''ca'' \<mapsto> VStr ''alto'']\<rparr> = None
 \<and> calculate_footprint reads_2_5 \<lparr>area_terreno = 360, params = [''taxa_ocupacao'' \<mapsto> VList []]\<rparr> = None"
proof -
  have r: "py_round 360 2 = 360" "py_round 180 2 = 180"
    by (simp_all add: py_round_def round_half_even_def)
  show ?thesis
    using calculator_defaults [of "\<lparr>area_terreno = 360, params = [''gabarito'' \<mapsto> VNum 4]\<rparr>" reads_2_5]
      calculator_defaults [of "\<lparr>area_terreno = 360, params = [''ca'' \<mapsto> VStr ''alto'']\<rparr>" reads_2_5]
      calculator_defaults [of "\<lparr>area_terreno = 360, params = [''taxa_ocupacao'' \<mapsto> VList []]\<rparr>" reads_2_5]
    by (simp add: r first_if_list_def py_float_def reads_2_5_def)
qed

lemma scaled_area_ignores_abbrev:
  "params z key = Some v \<Longrightarrow> abbrev \<noteq> key \<Longrightarrow>
     scaled_area S (z\<lparr>params := (params z)(abbrev := w)\<rparr>) key abbrev k = scaled_area S z key abbrev k"
  by (simp add: scaled_area_def dict_get_def split: sum.splits)

text \<open>
  C10. When the canonical key is present, the entry of the abbreviation has no effect on
  the result: whatever \<open>ca\<close> (or \<open>to\<close>) holds, a canonical value that is an empty
  list, or that is not read as a number, gives \<open>None\<close>.
\<close>

theorem canonical_key_shadows_abbreviation:
  "(\<forall>v w. params z ''coeficiente'' = Some v \<longrightarrow>
      calculate_buildable_area S (z\<lparr>params := (params z)(''ca'' := w)\<rparr>) =
        calculate_buildable_area S z)
 \<and> (\<forall>v. params z ''coeficiente'' = Some v
         \<and> ((\<exists>e. first_if_list v = Inl e)
            \<or> (\<exists>x e. first_if_list v = Inr x \<and> py_float S x = Inl e)) \<longrightarrow>
      calculate_buildable_area S z = None)
 \<and> (\<forall>v w. params z ''taxa_ocupacao'' = Some v \<longrightarrow>
      calculate_footprint S (z\<lparr>params := (params z)(''to'' := w)\<rparr>) =
        calculate_footprint S z)
 \<and> (\<forall>v. params z ''taxa_ocupacao'' = Some v
         \<and> ((\<exists>e. first_if_list v = Inl e)
            \<or> (\<exists>x e. first_if_list v = Inr x \<and> py_float S x = Inl e)) \<longrightarrow>
      calculate_footprint S z = None)"
proof (intro conjI allI impI)
  fix v w assume "params z ''coeficiente'' = Some v"
  then show "calculate_buildable_area S (z\<lparr>params := (params z)(''ca'' := w)\<rparr>) =
        calculate_buildable_area S z"
    by (simp add: calculate_buildable_area_def scaled_area_ignores_abbrev)
next
  fix v w assume "params z ''taxa_ocupacao'' = Some v"
  then show "calculate_footprint S (z\<lparr>params := (params z)(''to'' := w)\<rparr>) =
        calculate_footprint S z"
    by (simp add: calculate_footprint_def scaled_area_ignores_abbrev)
qed (auto simp: calculate_buildable_area_def calculate_footprint_def scaled_area_selected)

text \<open>
  The canonical key holds a text that is not a number (or \<open>None\<close>) while the
  abbreviation holds a number: the result is \<open>None\<close>.
\<close>

theorem canonical_key_shadows_abbreviation_witness:
  "calculate_buildable_area reads_2_5
      \<lparr>area_terreno = 360, params = [''coeficiente'' \<mapsto> VStr ''alto'', ''ca'' \<mapsto> VNum 2]\<rparr> = None
 \<and> calculate_footprint reads_2_5
      \<lparr>area_terreno = 360, params = [''taxa_ocupacao'' \<mapsto> VNone, ''to'' \<mapsto> VStr ''2.5'']\<rparr> = None"
  using canonical_key_shadows_abbreviation
      [of "\<lparr>area_terreno = 360, params = [''coeficiente'' \<mapsto> VStr ''alto'', ''ca'' \<mapsto> VNum 2]\<rparr>" reads_2_5]
    canonical_key_shadows_abbreviation
      [of "\<lparr>area_terreno = 360, params = [''taxa_ocupacao'' \<mapsto> VNone, ''to'' \<mapsto> VStr ''2.5'']\<rparr>" reads_2_5]
  by (simp add: first_if_list_def py_float_def reads_2_5_def)

section \<open>Column resolution\<close>

lemma resolve_column_find: "resolve_column cands cols = List.find (\<lambda>c. c \<in> set cols) cands"
  by (induction cands) auto

lemma resolve_column_Some_iff:
  "resolve_column cands cols = Some c \<longleftrightarrow>
     (\<exists>i<length cands. cands ! i = c \<and> c \<in> set cols \<and> (\<forall>j<i. cands ! j \<notin> set cols))"
  unfolding resolve_column_find find_Some_iff by metis

lemma resolve_column_None_iff:
  "resolve_column cands cols = None \<longleftrightarrow> (\<forall>c\<in>set cands. c \<notin> set cols)"
  unfolding resolve_column_find find_None_iff by blast

lemma set_dropna: "set (dropna xs) = {x. Some x \<in> set xs}"
  by (induction xs rule: dropna.induct) auto

lemma set_unique: "set (unique xs) = set xs"
  by (induction xs rule: unique.induct) auto

lemma distinct_unique: "distinct (unique xs)"
  by (induction xs rule: unique.induct) (auto simp: set_unique)

lemma frame_col_of_column:
  "c \<in> set (columns f) \<Longrightarrow> c \<noteq> ''geometry'' \<Longrightarrow> \<exists>col. frame_col f c = Some col"
proof -
  assume "c \<in> set (columns f)" and "c \<noteq> ''geometry''"
  then have "c \<in> fst ` set (attrs f)"
    by (auto simp: columns_def)
  then have "map_of (attrs f) c \<noteq> None"
    by (simp add: map_of_eq_None_iff)
  then show ?thesis
    by (auto simp: frame_col_def)
qed

lemma resolved_bairro_column:
  assumes "resolve_column bairro_candidates (columns f) = Some c"
  shows "\<exists>col. frame_col f c = Some col"
proof -
  from assms have "c \<in> set bairro_candidates" "c \<in> set (columns f)"
    unfolding resolve_column_Some_iff by auto
  moreover from this(1) have "c \<noteq> ''geometry''"
    by (auto simp: bairro_candidates_def)
  ultimately show ?thesis by (simp add: frame_col_of_column)
qed

lemma sorted_values:
  "sorted (sort (unique (dropna xs))) \<and> distinct (sort (unique (dropna xs)))
     \<and> set (sort (unique (dropna xs))) = {x. Some x \<in> set xs}"
  by (simp add: distinct_unique set_unique set_dropna)

text \<open>
  C5. The candidates are tried in order and the first that is a column of the frame is
  used: with candidates \<open>bairro\<close>, \<open>BAIRRO\<close>, \<open>nome\<close> and a frame holding both
  \<open>BAIRRO\<close> and \<open>nome\<close>, the result is \<open>BAIRRO\<close> (unless \<open>bairro\<close> itself is a
  column), never \<open>nome\<close>. \<open>get_bairros\<close> answers with the distinct non-null values of
  the resolved column in ascending order, and their number; when no candidate is a
  column it answers 400 with the message and the list of the frame's columns.
\<close>

theorem column_resolution:
  "(resolve_column cands cols = Some c \<longleftrightarrow>
      (\<exists>i<length cands. cands ! i = c \<and> c \<in> set cols \<and> (\<forall>j<i. cands ! j \<notin> set cols)))
 \<and> (''BAIRRO'' \<in> set cols \<and> ''nome'' \<in> set cols \<longrightarrow>
      resolve_column [''bairro'', ''BAIRRO'', ''nome''] cols =
        (if ''bairro'' \<in> set cols then Some ''bairro'' else Some ''BAIRRO''))
 \<and> (\<forall>col. resolve_column bairro_candidates (columns data) = Some col \<longrightarrow>
      (\<exists>xs ys. frame_col data col = Some (StrCol xs)
          \<and> get_bairros (Some data) = ((Bairros (map VStr ys) (length ys), 200), Some data)
          \<and> sorted ys \<and> distinct ys \<and> set ys = {x. Some x \<in> set xs})
    \<or> (\<exists>xs ys. frame_col data col = Some (NumCol xs)
          \<and> get_bairros (Some data) = ((Bairros (map VNum ys) (length ys), 200), Some data)
          \<and> sorted ys \<and> distinct ys \<and> set ys = {x. Some x \<in> set xs}))
 \<and> (resolve_column bairro_candidates (columns data) = None \<longrightarrow>
      get_bairros (Some data) =
        ((ColumnNotFound msg_no_bairro_column (columns data), 400), Some data))"
proof (intro conjI allI impI)
  show "resolve_column cands cols = Some c \<longleftrightarrow>
      (\<exists>i<length cands. cands ! i = c \<and> c \<in> set cols \<and> (\<forall>j<i. cands ! j \<notin> set cols))"
    by (rule resolve_column_Some_iff)
next
  assume "''BAIRRO'' \<in> set cols \<and> ''nome'' \<in> set cols"
  then show "resolve_column [''bairro'', ''BAIRRO'', ''nome''] cols =
        (if ''bairro'' \<in> set cols then Some ''bairro'' else Some ''BAIRRO'')"
    by simp
next
  fix col assume r: "resolve_column bairro_candidates (columns data) = Some col"
  then obtain cl where cl: "frame_col data col = Some cl"
    using resolved_bairro_column by blast
  show "(\<exists>xs ys. frame_col data col = Some (StrCol xs)
          \<and> get_bairros (Some data) = ((Bairros (map VStr ys) (length ys), 200), Some data)
          \<and> sorted ys \<and> distinct ys \<and> set ys = {x. Some x \<in> set xs})
    \<or> (\<exists>xs ys. frame_col data col = Some (NumCol xs)
          \<and> get_bairros (Some data) = ((Bairros (map VNum ys) (length ys), 200), Some data)
          \<and> sorted ys \<and> distinct ys \<and> set ys = {x. Some x \<in> set xs})"
  proof (cases cl)
    case (StrCol xs)
    have "get_bairros (Some data) =
        ((Bairros (map VStr (sort (unique (dropna xs)))) (length (sort (unique (dropna xs)))), 200),
         Some data)"
      using r cl StrCol
      by (simp add: get_bairros_def col_dropna_def pl_unique_def pl_sorted_def tolist_def)
    then show ?thesis using cl StrCol sorted_values [of xs] by blast
  next
    case (NumCol xs)
    have "get_bairros (Some data) =
        ((Bairros (map VNum (sort (unique (dropna xs)))) (length (sort (unique (dropna xs)))), 200),
         Some data)"
      using r cl NumCol
      by (simp add: get_bairros_def col_dropna_def pl_unique_def pl_sorted_def tolist_def)
    then show ?thesis using cl NumCol sorted_values [of xs] by blast
  qed
next
  assume "resolve_column bairro_candidates (columns data) = None"
  then show "get_bairros (Some data) =
        ((ColumnNotFound msg_no_bairro_column (columns data), 400), Some data)"
    by (simp add: get_bairros_def)
qed

text \<open>
  \<open>lotes\<close> has the columns \<open>nome\<close> and \<open>BAIRRO\<close>, in that order: \<open>BAIRRO\<close> is
  resolved, and its two distinct values come back sorted. \<open>quadra\<close> has no candidate
  column: the answer lists its only column.
\<close>

theorem column_resolution_witness:
  "resolve_column bairro_candidates (columns lotes) = Some ''BAIRRO''
 \<and> fst (get_bairros (Some lotes)) = (Bairros [VStr ''Barro Vermelho'', VStr ''Centro''] 2, 200)
 \<and> get_bairros (Some quadra) =
     ((ColumnNotFound msg_no_bairro_column [''geometry''], 400), Some quadra)"
proof -
  have r: "resolve_column bairro_candidates (columns lotes) = Some ''BAIRRO''"
    by (simp add: bairro_candidates_def columns_def lotes_def)
  have c: "frame_col lotes ''BAIRRO'' =
      Some (StrCol [Some ''Centro'', Some ''Barro Vermelho'', Some ''Centro''])"
    by (simp add: frame_col_def lotes_def)
  have s: "sort [''Centro'', ''Barro Vermelho''] = [''Barro Vermelho'', ''Centro'']"
    by code_simp
  have b: "fst (get_bairros (Some lotes)) =
      (Bairros [VStr ''Barro Vermelho'', VStr ''Centro''] 2, 200)"
    by (simp add: get_bairros_def r c col_dropna_def pl_unique_def pl_sorted_def tolist_def s)
  have n: "resolve_column bairro_candidates (columns quadra) = None"
    by (simp add: bairro_candidates_def columns_def quadra_def)
  have q: "columns quadra = [''geometry'']"
    by (simp add: columns_def quadra_def)
  show ?thesis
    using column_resolution [of bairro_candidates "columns lotes" "''BAIRRO''" quadra] r b n q
    by simp
qed

section \<open>Invalid selections\<close>

text \<open>
  C9. On a loaded store, an index below 0 or not below the number of parcels is answered
  by \<open>get_lote_info\<close> with 400 and the invalid-index message; a body whose \<open>indices\<close>
  is absent or empty is answered by \<open>unir_lotes\<close> with 400 and the no-selection
  message. Neither is the 500 of a caught exception, and the store is the one given.
\<close>

theorem invalid_selection:
  "(index < 0 \<or> int (frame_len data) \<le> index \<longrightarrow>
      get_lote_info L (Some data) index = ((Failure msg_invalid_index, 400), Some data))
 \<and> (given = None \<or> given = Some [] \<longrightarrow>
      unir_lotes L (Some data) (JsonBody given) = ((Failure msg_none_selected, 400), Some data))"
  by (auto simp: get_lote_info_def unir_lotes_def)

text \<open>Indices 3 and -1 on a store of three parcels; an empty and a missing selection.\<close>

theorem invalid_selection_witness:
  "get_lote_info grid_lib (Some lotes) 3 = ((Failure msg_invalid_index, 400), Some lotes)
 \<and> get_lote_info grid_lib (Some lotes) (- 1) = ((Failure msg_invalid_index, 400), Some lotes)
 \<and> unir_lotes grid_lib (Some lotes) (JsonBody (Some [])) =
     ((Failure msg_none_selected, 400), Some lotes)
 \<and> unir_lotes grid_lib (Some lotes) (JsonBody None) =
     ((Failure msg_none_selected, 400), Some lotes)"
proof -
  have n: "int (frame_len lotes) \<le> 3"
    by (simp add: frame_len_def lotes_def)
  show ?thesis
    using invalid_selection [of 3 lotes grid_lib "Some []"]
      invalid_selection [of "- 1" lotes grid_lib None] n
    by simp
qed

section \<open>Loading and measuring\<close>

text \<open>
  Two facts of the code's structure. The frame that \<open>load_geojson\<close> returns has the
  display CRS, the file's attributes and the file's geometries reprojected from the
  source CRS. The measure of a lone parcel is taken on its geometry reprojected to the
  metric CRS. What such a pair of reprojections does to the coordinates is decided by the
  library's floating-point arithmetic, of which this model, with rationals and the
  library as a parameter, says nothing.
\<close>

lemma load_geojson_Some:
  assumes "load_geojson L (Table cols geo) = Some f"
  shows "frame_crs f = display_crs \<and> attrs f = cols
       \<and> map_exn (transform L source_crs display_crs) geo = Inr (geometry f)"
  using assms by (auto simp: load_geojson_def to_crs_def split: sum.splits)

lemma single_parcel_measure:
  assumes "geometry (gdf a) = [g']" and "unified_geometry a = None"
    and "transform L (frame_crs (gdf a)) metric_crs g' = Inr g''"
  shows "fst (case measure_try L m a of
                (Inr x, a2) \<Rightarrow> (Inr x, a2)
              | (Inl e, a2) \<Rightarrow> measure_fallback L m k a2) = Inr (py_round (m g'') 2)"
proof -
  have u: "ensure_unified L a = (Inr (), a\<lparr>unified_geometry := Some g'\<rparr>)"
    using assms(1,2) by (simp add: ensure_unified_def unify_lots_def)
  have "to_crs L (gdf a) metric_crs = Inr ((gdf a)\<lparr>geometry := [g''], frame_crs := metric_crs\<rparr>)"
    using assms(1,3) by (simp add: to_crs_def)
  then have "measure_metric L m (a\<lparr>unified_geometry := Some g'\<rparr>) =
      (Inr (m g''), a\<lparr>unified_geometry := Some g'\<rparr>)"
    by (simp add: measure_metric_def frame_len_def)
  then show ?thesis
    using u by (simp add: measure_try_def)
qed

end
